theory Spec2Isabelle
  imports Complex_Main
begin

section \<open>Data model\<close>

text \<open>
  A Python float that is not NaN: a number or an infinity. A JSON number too
  large for a double is read as an infinity, and \<open>dropna()\<close> keeps it.
\<close>

datatype pyfloat = Finite real | PosInf | NegInf

text \<open>
  A row of the data frame built by \<open>fetch_yahoo_data\<close>: the four columns
  \<open>close\<close>, \<open>high\<close>, \<open>low\<close>, \<open>volume\<close>. The frame is returned after
  \<open>dropna()\<close>, so no cell of a row is NaN. Finite floats are modelled as real
  numbers, without rounding. The prices are finite; a volume may be infinite:
  \<open>volume\<close> is the column that \<open>calculate_squeeze\<close> converts with
  \<open>int(...)\<close>, which raises on an infinity.
\<close>

record candle =
  close :: real
  high :: real
  low :: real
  volume :: pyfloat

type_synonym df = "candle list"

text \<open>
  A pandas Series of floats: \<open>None\<close> is NaN, which the rolling computations
  produce where the window is not yet full.
\<close>

type_synonym series = "real option list"

text \<open>The values stored in the result dictionaries, and the dictionaries themselves.\<close>

datatype jval = JBool bool | JStr string | JFloat real | JInt int

type_synonym details = "string \<rightharpoonup> jval"

type_synonym snapshot = "string \<rightharpoonup> details"

section \<open>Series arithmetic\<close>

text \<open>Arithmetic propagates NaN; every comparison with NaN is false.\<close>

fun nan_op :: "(real \<Rightarrow> real \<Rightarrow> real) \<Rightarrow> real option \<Rightarrow> real option \<Rightarrow> real option" where
  "nan_op f (Some x) (Some y) = Some (f x y)"
| "nan_op f _ _ = None"

fun nan_cmp :: "(real \<Rightarrow> real \<Rightarrow> bool) \<Rightarrow> real option \<Rightarrow> real option \<Rightarrow> bool" where
  "nan_cmp r (Some x) (Some y) = r x y"
| "nan_cmp r _ _ = False"

definition series_add :: "series \<Rightarrow> series \<Rightarrow> series" where
  "series_add a b = map2 (nan_op (+)) a b"

definition series_sub :: "series \<Rightarrow> series \<Rightarrow> series" where
  "series_sub a b = map2 (nan_op (-)) a b"

definition series_scale :: "real \<Rightarrow> series \<Rightarrow> series" where
  "series_scale k a = map (nan_op (*) (Some k)) a"

definition series_gt :: "series \<Rightarrow> series \<Rightarrow> bool list" where
  "series_gt a b = map2 (nan_cmp (\<lambda>x y. x > y)) a b"

definition series_lt :: "series \<Rightarrow> series \<Rightarrow> bool list" where
  "series_lt a b = map2 (nan_cmp (\<lambda>x y. x < y)) a b"

definition series_and :: "bool list \<Rightarrow> bool list \<Rightarrow> bool list" where
  "series_and a b = map2 (\<and>) a b"

section \<open>Moving averages\<close>

text \<open>
  \<open>ewm(span=s, adjust=False).mean()\<close>: the first output is the first input, and
  each later output is \<open>(1 - \<alpha>) * previous + \<alpha> * input\<close> with
  \<open>\<alpha> = 2 / (s + 1)\<close>.
\<close>

fun ewm_from :: "real \<Rightarrow> real \<Rightarrow> real list \<Rightarrow> real list" where
  "ewm_from \<alpha> y [] = []"
| "ewm_from \<alpha> y (x # xs) = ((1 - \<alpha>) * y + \<alpha> * x) # ewm_from \<alpha> ((1 - \<alpha>) * y + \<alpha> * x) xs"

definition ewm_mean :: "int \<Rightarrow> real list \<Rightarrow> real list" where
  "ewm_mean s xs =
     (case xs of [] \<Rightarrow> [] | x # rest \<Rightarrow> x # ewm_from (2 / (real_of_int s + 1)) x rest)"

text \<open>
  \<open>rolling(w)\<close>: the window ending at row \<open>i\<close> holds the \<open>w\<close> rows up to and
  including \<open>i\<close>; with fewer than \<open>w\<close> rows so far the result is NaN. The
  standard deviation is the sample one (\<open>ddof = 1\<close>), NaN for a window of one row.
\<close>

definition window :: "nat \<Rightarrow> 'a list \<Rightarrow> nat \<Rightarrow> 'a list" where
  "window w xs i = take w (drop (i + 1 - w) xs)"

definition mean :: "real list \<Rightarrow> real" where
  "mean ws = sum_list ws / real (length ws)"

definition sample_std :: "real list \<Rightarrow> real" where
  "sample_std ws = sqrt (sum_list (map (\<lambda>x. (x - mean ws) * (x - mean ws)) ws) / (real (length ws) - 1))"

definition rolling_mean :: "nat \<Rightarrow> real list \<Rightarrow> series" where
  "rolling_mean w xs =
     map (\<lambda>i. if w = 0 \<or> i + 1 < w then None else Some (mean (window w xs i))) [0..<length xs]"

definition rolling_std :: "nat \<Rightarrow> real list \<Rightarrow> series" where
  "rolling_std w xs =
     map (\<lambda>i. if w < 2 \<or> i + 1 < w then None else Some (sample_std (window w xs i))) [0..<length xs]"

text \<open>
  On a column that may hold infinities: \<open>rolling\<close> replaces every infinity by
  NaN before it computes, and a window that holds a NaN has the mean NaN.
\<close>

fun inf_to_nan :: "pyfloat \<Rightarrow> real option" where
  "inf_to_nan (Finite x) = Some x"
| "inf_to_nan PosInf = None"
| "inf_to_nan NegInf = None"

definition rolling_mean_na :: "nat \<Rightarrow> real option list \<Rightarrow> series" where
  "rolling_mean_na w xs =
     map (\<lambda>i. if w = 0 \<or> i + 1 < w then None else map_option mean (those (window w xs i)))
       [0..<length xs]"

text \<open>The comparison \<open>x > y\<close> of a float that is not NaN with a float that may be NaN.\<close>

fun float_gt :: "pyfloat \<Rightarrow> real option \<Rightarrow> bool" where
  "float_gt x None = False"
| "float_gt (Finite x) (Some y) = (x > y)"
| "float_gt PosInf (Some y) = True"
| "float_gt NegInf (Some y) = False"

section \<open>The indicator: \<open>calculate_squeeze\<close>\<close>

text \<open>
  \<open>int(x)\<close> on a float truncates towards zero, and raises an
  \<open>OverflowError\<close> with this message on an infinity.
\<close>

definition overflow_error :: string where
  "overflow_error = ''cannot convert float infinity to integer''"

definition py_trunc :: "real \<Rightarrow> int" where
  "py_trunc x = (if 0 \<le> x then \<lfloor>x\<rfloor> else \<lceil>x\<rceil>)"

fun py_int :: "pyfloat \<Rightarrow> string + int" where
  "py_int (Finite x) = Inr (py_trunc x)"
| "py_int PosInf = Inl overflow_error"
| "py_int NegInf = Inl overflow_error"

text \<open>
  The message of the \<open>ValueError\<close> that pandas raises for \<open>ewm(span=s)\<close> with
  \<open>s < 1\<close>.
\<close>

definition span_error :: string where
  "span_error = ''span must satisfy: span >= 1''"

definition signal_details :: "real \<Rightarrow> int \<Rightarrow> bool \<Rightarrow> bool \<Rightarrow> bool \<Rightarrow> bool \<Rightarrow> details" where
  "signal_details p v sq hv mb sg =
     [''price'' \<mapsto> JFloat p, ''volume'' \<mapsto> JInt v, ''in_squeeze'' \<mapsto> JBool sq,
      ''high_volume'' \<mapsto> JBool hv, ''macd_bullish'' \<mapsto> JBool mb, ''signal'' \<mapsto> JBool sg,
      ''error'' \<mapsto> JBool False]"

definition error_details :: "string \<Rightarrow> details" where
  "error_details msg = [''error'' \<mapsto> JBool True, ''message'' \<mapsto> JStr msg]"

text \<open>The intermediate series of \<open>calculate_squeeze\<close>, named as in the source.\<close>

definition kc_upper :: "df \<Rightarrow> int \<Rightarrow> real \<Rightarrow> series" where
  "kc_upper d L kc =
     (let ema = map Some (ewm_mean L (map close d));
          atr = rolling_mean (nat L) (map (\<lambda>c. high c - low c) d)
      in series_add ema (series_scale kc atr))"

definition kc_lower :: "df \<Rightarrow> int \<Rightarrow> real \<Rightarrow> series" where
  "kc_lower d L kc =
     (let ema = map Some (ewm_mean L (map close d));
          atr = rolling_mean (nat L) (map (\<lambda>c. high c - low c) d)
      in series_sub ema (series_scale kc atr))"

definition bb_upper :: "df \<Rightarrow> int \<Rightarrow> real \<Rightarrow> series" where
  "bb_upper d L bb =
     (let sma = rolling_mean (nat L) (map close d);
          std = rolling_std (nat L) (map close d)
      in series_add sma (series_scale bb std))"

definition bb_lower :: "df \<Rightarrow> int \<Rightarrow> real \<Rightarrow> series" where
  "bb_lower d L bb =
     (let sma = rolling_mean (nat L) (map close d);
          std = rolling_std (nat L) (map close d)
      in series_sub sma (series_scale bb std))"

definition in_squeeze :: "df \<Rightarrow> int \<Rightarrow> real \<Rightarrow> real \<Rightarrow> bool list" where
  "in_squeeze d L bb kc =
     series_and (series_gt (bb_lower d L bb) (kc_lower d L kc))
                (series_lt (bb_upper d L bb) (kc_upper d L kc))"

definition high_vol :: "df \<Rightarrow> int \<Rightarrow> real \<Rightarrow> bool list" where
  "high_vol d L vol =
     (let vol_avg = rolling_mean_na (nat L) (map (\<lambda>c. inf_to_nan (volume c)) d)
      in map2 float_gt (map volume d) (series_scale vol vol_avg))"

definition macd :: "df \<Rightarrow> real list" where
  "macd d = map2 (-) (ewm_mean 12 (map close d)) (ewm_mean 26 (map close d))"

definition macd_bull :: "df \<Rightarrow> bool list" where
  "macd_bull d = map2 (\<lambda>m s. m > s) (macd d) (ewm_mean 9 (macd d))"

definition squeeze_signal :: "df \<Rightarrow> int \<Rightarrow> real \<Rightarrow> real \<Rightarrow> real \<Rightarrow> bool list" where
  "squeeze_signal d L bb kc vol =
     series_and (series_and (in_squeeze d L bb kc) (high_vol d L vol)) (macd_bull d)"

text \<open>
  The body of the \<open>try\<close> block; \<open>Inl msg\<close> is an exception whose \<open>str\<close> is
  \<open>msg\<close>. The first pandas call, \<open>ewm(span=L)\<close>, raises for \<open>L < 1\<close>; past it
  \<open>L\<close> is a valid window, the spans 12, 26 and 9 are valid, and the frame has at
  least \<open>L + 26\<close> rows, so \<open>iloc[-1]\<close> reads the last row of a non-empty series.
  The series and the comparisons raise nothing; the last place that can raise
  is \<open>int(df['volume'].iloc[idx])\<close>, while the returned dictionary is built.
\<close>

definition squeeze_try :: "df \<Rightarrow> int \<Rightarrow> real \<Rightarrow> real \<Rightarrow> real \<Rightarrow> string + (bool \<times> details)" where
  "squeeze_try d L bb kc vol =
     (if int (length d) < L + 26 then Inr (False, Map.empty)
      else if L < 1 then Inl span_error
      else (case py_int (volume (last d)) of
              Inl msg \<Rightarrow> Inl msg
            | Inr v \<Rightarrow>
                Inr (last (squeeze_signal d L bb kc vol),
                     signal_details (close (last d)) v
                       (last (in_squeeze d L bb kc)) (last (high_vol d L vol))
                       (last (macd_bull d)) (last (squeeze_signal d L bb kc vol)))))"

text \<open>\<open>except Exception as e: return False, {'error': True, 'message': str(e)}\<close>\<close>

definition calculate_squeeze :: "df \<Rightarrow> int \<Rightarrow> real \<Rightarrow> real \<Rightarrow> real \<Rightarrow> bool \<times> details" where
  "calculate_squeeze d L bb kc vol =
     (case squeeze_try d L bb kc vol of
        Inl msg \<Rightarrow> (False, error_details msg)
      | Inr r \<Rightarrow> r)"

section \<open>The scan: \<open>scan_markets\<close> and \<open>get_signals\<close>\<close>

text \<open>
  \<open>ticker.strip().upper()\<close>, for ticker symbols made of ASCII characters:
  \<open>strip\<close> removes leading and trailing white space, \<open>upper\<close> maps \<open>a\<close>..\<open>z\<close>
  to \<open>A\<close>..\<open>Z\<close>.
\<close>

definition is_space :: "char \<Rightarrow> bool" where
  "is_space c = ((of_char c :: nat) \<in> {9, 10, 11, 12, 13, 28, 29, 30, 31, 32})"

definition strip :: "string \<Rightarrow> string" where
  "strip s = rev (dropWhile is_space (rev (dropWhile is_space s)))"

definition upper_char :: "char \<Rightarrow> char" where
  "upper_char c =
     (if 97 \<le> (of_char c :: nat) \<and> (of_char c :: nat) \<le> 122
      then char_of ((of_char c :: nat) - 32) else c)"

definition upper :: "string \<Rightarrow> string" where
  "upper s = map upper_char s"

text \<open>
  What the scan reads from outside: the outcome of the \<open>k\<close>-th call of
  \<open>fetch_yahoo_data\<close> in a scan (\<open>None\<close> when it returns \<open>None\<close>, which
  covers every exception inside it), and the text of
  \<open>datetime.now().isoformat()\<close> at the \<open>k\<close>-th iteration.
\<close>

record env =
  fetch_yahoo_data :: "nat \<Rightarrow> string \<Rightarrow> df option"
  now_iso :: "nat \<Rightarrow> string"

text \<open>
  The module state: the global \<open>squeeze_data\<close>, and the log of what the program
  has done to the outside, in order: calls of \<open>send_discord_alert\<close> and
  assignments to \<open>squeeze_data\<close>.
\<close>

datatype event = Alert string jval | Publish snapshot

record app =
  squeeze_data :: snapshot
  events :: "event list"

definition init_app :: app where
  "init_app = \<lparr>squeeze_data = Map.empty, events = []\<rparr>"

definition no_data_details :: details where
  "no_data_details =
     [''error'' \<mapsto> JBool True, ''message'' \<mapsto> JStr ''No data available'',
      ''signal'' \<mapsto> JBool False]"

text \<open>
  The entry that iteration \<open>k\<close> stores under the normalised ticker, with the
  flag \<open>is_squeeze\<close> (false on the \<open>continue\<close> path of
  \<open>df is None or len(df) < 50\<close>, where nothing reads it).
\<close>

definition ticker_result :: "env \<Rightarrow> nat \<Rightarrow> string \<Rightarrow> bool \<times> details" where
  "ticker_result e k ticker =
     (case fetch_yahoo_data e k ticker of
        None \<Rightarrow> (False, no_data_details)
      | Some d \<Rightarrow>
          if length d < 50 then (False, no_data_details)
          else (let (is_squeeze, details) = calculate_squeeze d 20 2 1.5 1.5
                in (is_squeeze, details(''timestamp'' \<mapsto> JStr (now_iso e k)))))"

text \<open>
  One iteration of the \<open>for\<close> loop, on the local \<open>temp_data\<close> and the module
  state. \<open>Inl\<close> is an exception that leaves \<open>scan_markets\<close>: the only
  candidate is the \<open>KeyError\<close> of \<open>details['price']\<close>.
\<close>

definition scan_ticker :: "env \<Rightarrow> nat \<Rightarrow> string \<Rightarrow> snapshot \<times> app \<Rightarrow> string + (snapshot \<times> app)" where
  "scan_ticker e k raw st =
     (let ticker = upper (strip raw);
          (temp_data, a) = st;
          (is_squeeze, details) = ticker_result e k ticker;
          temp_data' = temp_data(ticker \<mapsto> details)
      in if is_squeeze
         then (case details ''price'' of
                 None \<Rightarrow> Inl ''KeyError''
               | Some p \<Rightarrow> Inr (temp_data', a\<lparr>events := events a @ [Alert ticker p]\<rparr>))
         else Inr (temp_data', a))"

fun scan_loop :: "env \<Rightarrow> nat \<Rightarrow> string list \<Rightarrow> snapshot \<times> app \<Rightarrow> string + (snapshot \<times> app)" where
  "scan_loop e k [] st = Inr st"
| "scan_loop e k (t # ts) st =
     (case scan_ticker e k t st of
        Inl x \<Rightarrow> Inl x
      | Inr st' \<Rightarrow> scan_loop e (Suc k) ts st')"

text \<open>\<open>with data_lock: squeeze_data = temp_data\<close>\<close>

definition publish :: "snapshot \<Rightarrow> app \<Rightarrow> app" where
  "publish temp_data a = a\<lparr>squeeze_data := temp_data, events := events a @ [Publish temp_data]\<rparr>"

definition scan_markets :: "env \<Rightarrow> string list \<Rightarrow> app \<Rightarrow> string + app" where
  "scan_markets e tickers a =
     (case scan_loop e 0 tickers (Map.empty, a) of
        Inl x \<Rightarrow> Inl x
      | Inr (temp_data, a') \<Rightarrow> Inr (publish temp_data a'))"

text \<open>
  The module states that another thread can find while a scan runs: the one
  before each iteration, the one after the loop, and the one after the
  assignment under the lock. An exception ends the list.
\<close>

fun scan_points :: "env \<Rightarrow> nat \<Rightarrow> string list \<Rightarrow> snapshot \<times> app \<Rightarrow> app list" where
  "scan_points e k [] st = [snd st, publish (fst st) (snd st)]"
| "scan_points e k (t # ts) st =
     snd st # (case scan_ticker e k t st of
                 Inl x \<Rightarrow> []
               | Inr st' \<Rightarrow> scan_points e (Suc k) ts st')"

text \<open>\<open>with data_lock: data = dict(squeeze_data)\<close>, which the handler returns as JSON.\<close>

definition get_signals :: "app \<Rightarrow> snapshot" where
  "get_signals a = squeeze_data a"

section \<open>The scan as a list of recorded results\<close>

text \<open>
  The scan described by its results rather than by its loop: the entries that
  the iterations record, in configuration order, each under its normalised
  ticker; and, for an entry that is a result with \<open>error = False\<close> and
  \<open>signal = True\<close>, the call of the alert with the ticker and the price of
  that entry.
\<close>

definition alert_of :: "string \<Rightarrow> details \<Rightarrow> event list" where
  "alert_of ticker det =
     (if det ''error'' = Some (JBool False) \<and> det ''signal'' = Some (JBool True)
      then (case det ''price'' of None \<Rightarrow> [] | Some p \<Rightarrow> [Alert ticker p])
      else [])"

fun scan_results :: "env \<Rightarrow> nat \<Rightarrow> string list \<Rightarrow> (string \<times> details) list" where
  "scan_results e k [] = []"
| "scan_results e k (t # ts) =
     (upper (strip t), snd (ticker_result e k (upper (strip t)))) # scan_results e (Suc k) ts"

definition scan_alerts :: "env \<Rightarrow> nat \<Rightarrow> string list \<Rightarrow> event list" where
  "scan_alerts e k ts = concat (map (\<lambda>(t, det). alert_of t det) (scan_results e k ts))"

section \<open>Sample inputs\<close>

text \<open>A candle without range, used to build frames of identical rows.\<close>

definition flat_candle :: candle where
  "flat_candle = \<lparr>close = 10, high = 10, low = 10, volume = Finite 1000\<rparr>"

text \<open>
  A frame of 50 rows whose closes are flat at 100 and then move through
  94, 99, 99, 101, 101 to 106, with a range of 4 in every row and a volume of
  1000 that jumps to 5000 in the last row.
\<close>

definition bar :: "real \<Rightarrow> real \<Rightarrow> candle" where
  "bar c v = \<lparr>close = c, high = c + 2, low = c - 2, volume = Finite v\<rparr>"

definition rally_frame :: df where
  "rally_frame = replicate 44 (bar 100 1000) @
     [bar 94 1000, bar 99 1000, bar 99 1000, bar 101 1000, bar 101 1000, bar 106 5000]"

text \<open>A frame of 50 rows whose last volume is infinite.\<close>

definition overflow_frame :: df where
  "overflow_frame = replicate 49 (bar 100 1000) @
     [\<lparr>close = 100, high = 102, low = 98, volume = PosInf\<rparr>]"

text \<open>
  Outside worlds for the scan: one where every fetch returns \<open>None\<close>, one
  where every fetch returns a frame of 49 rows, and one where the fetch for
  \<open>AMD\<close> returns \<open>None\<close> and every other fetch returns the rally frame, and
  one that returns \<open>None\<close> for \<open>AMD\<close>, the frame with the infinite volume for
  \<open>NVDA\<close> and the rally frame otherwise; the clock always reads the same
  instant. \<open>rally_details\<close> and \<open>overflow_details\<close> are the entries recorded
  for the rally frame and for the frame with the infinite volume, and
  \<open>stale_app\<close> is a module state left by an earlier scan.
\<close>

definition absent_fetch :: "nat \<Rightarrow> string \<Rightarrow> df option" where
  "absent_fetch k s = None"

definition fixed_clock :: "nat \<Rightarrow> string" where
  "fixed_clock k = ''2024-01-02T10:00:00''"

definition absent_env :: env where
  "absent_env = \<lparr>fetch_yahoo_data = absent_fetch, now_iso = fixed_clock\<rparr>"

definition short_fetch :: "nat \<Rightarrow> string \<Rightarrow> df option" where
  "short_fetch k s = Some (replicate 49 flat_candle)"

definition short_env :: env where
  "short_env = \<lparr>fetch_yahoo_data = short_fetch, now_iso = fixed_clock\<rparr>"

definition mixed_fetch :: "nat \<Rightarrow> string \<Rightarrow> df option" where
  "mixed_fetch k s = (if s = ''AMD'' then None else Some rally_frame)"

definition mixed_env :: env where
  "mixed_env = \<lparr>fetch_yahoo_data = mixed_fetch, now_iso = fixed_clock\<rparr>"

definition faulty_fetch :: "nat \<Rightarrow> string \<Rightarrow> df option" where
  "faulty_fetch k s =
     (if s = ''AMD'' then None else if s = ''NVDA'' then Some overflow_frame else Some rally_frame)"

definition faulty_env :: env where
  "faulty_env = \<lparr>fetch_yahoo_data = faulty_fetch, now_iso = fixed_clock\<rparr>"

definition rally_details :: details where
  "rally_details =
     (signal_details 106 5000 True True True True)(''timestamp'' \<mapsto> JStr ''2024-01-02T10:00:00'')"

definition overflow_details :: details where
  "overflow_details =
     (error_details overflow_error)(''timestamp'' \<mapsto> JStr ''2024-01-02T10:00:00'')"

definition stale_app :: app where
  "stale_app = \<lparr>squeeze_data = [''GME'' \<mapsto> rally_details], events = []\<rparr>"

section \<open>The last row of each series\<close>

lemma length_ewm_from: "length (ewm_from \<alpha> y xs) = length xs"
  by (induction xs arbitrary: y) simp_all

lemma length_ewm_mean: "length (ewm_mean s xs) = length xs"
  by (simp add: ewm_mean_def length_ewm_from split: list.splits)

lemma length_rolling_mean: "length (rolling_mean w xs) = length xs"
  by (simp add: rolling_mean_def)

lemma length_rolling_std: "length (rolling_std w xs) = length xs"
  by (simp add: rolling_std_def)

lemma last_map2:
  "length xs = length ys \<Longrightarrow> xs \<noteq> [] \<Longrightarrow> last (map2 f xs ys) = f (last xs) (last ys)"
proof (induction xs ys rule: list_induct2)
  case Nil
  then show ?case by simp
next
  case (Cons x xs y ys)
  then show ?case by (cases xs; cases ys) simp_all
qed

lemma last_zip:
  "length xs = length ys \<Longrightarrow> xs \<noteq> [] \<Longrightarrow> last (zip xs ys) = (last xs, last ys)"
proof (induction xs ys rule: list_induct2)
  case Nil
  then show ?case by simp
next
  case (Cons x xs y ys)
  then show ?case by (cases xs; cases ys) simp_all
qed

lemma last_map_upt: "0 < n \<Longrightarrow> last (map f [0..<n]) = f (n - Suc 0)"
  by (simp add: last_conv_nth)

lemma window_last: "w \<le> length xs \<Longrightarrow> window w xs (length xs - Suc 0) = drop (length xs - w) xs"
  by (cases xs) (simp_all add: window_def)

lemma last_rolling_mean:
  "xs \<noteq> [] \<Longrightarrow> 0 < w \<Longrightarrow> w \<le> length xs \<Longrightarrow>
   last (rolling_mean w xs) = Some (mean (drop (length xs - w) xs))"
  by (simp add: rolling_mean_def last_map_upt window_last)

lemma last_rolling_std:
  "xs \<noteq> [] \<Longrightarrow> 0 < w \<Longrightarrow> w \<le> length xs \<Longrightarrow>
   last (rolling_std w xs) = (if w < 2 then None else Some (sample_std (drop (length xs - w) xs)))"
  by (simp add: rolling_std_def last_map_upt window_last)

lemma length_in_squeeze: "length (in_squeeze d L bb kc) = length d"
  by (simp add: in_squeeze_def series_and_def series_gt_def series_lt_def bb_lower_def bb_upper_def
      kc_lower_def kc_upper_def series_add_def series_sub_def series_scale_def
      length_ewm_mean length_rolling_mean length_rolling_std Let_def)

lemma length_rolling_mean_na: "length (rolling_mean_na w xs) = length xs"
  by (simp add: rolling_mean_na_def)

lemma last_rolling_mean_na:
  "xs \<noteq> [] \<Longrightarrow> 0 < w \<Longrightarrow> w \<le> length xs \<Longrightarrow>
   last (rolling_mean_na w xs) = map_option mean (those (drop (length xs - w) xs))"
  by (simp add: rolling_mean_na_def last_map_upt window_last)

lemma rolling_mean_na_Nil_iff: "rolling_mean_na w xs = [] \<longleftrightarrow> xs = []"
  by (simp add: rolling_mean_na_def)

lemma length_high_vol: "length (high_vol d L vol) = length d"
  by (simp add: high_vol_def series_scale_def length_rolling_mean_na Let_def)

lemma length_macd: "length (macd d) = length d"
  by (simp add: macd_def length_ewm_mean)

lemma length_macd_bull: "length (macd_bull d) = length d"
  by (simp add: macd_bull_def length_macd length_ewm_mean)

lemma last_squeeze_signal:
  "d \<noteq> [] \<Longrightarrow> last (squeeze_signal d L bb kc vol) =
     (last (in_squeeze d L bb kc) \<and> last (high_vol d L vol) \<and> last (macd_bull d))"
proof -
  assume ne: "d \<noteq> []"
  have l1: "length (in_squeeze d L bb kc) = length (high_vol d L vol)"
    by (simp add: length_in_squeeze length_high_vol)
  have n1: "in_squeeze d L bb kc \<noteq> []"
    using ne length_in_squeeze [of d L bb kc] by auto
  have l2: "length (map2 (\<and>) (in_squeeze d L bb kc) (high_vol d L vol)) = length (macd_bull d)"
    by (simp add: length_in_squeeze length_high_vol length_macd_bull)
  have n2: "map2 (\<and>) (in_squeeze d L bb kc) (high_vol d L vol) \<noteq> []"
    using ne l2 length_macd_bull [of d] by auto
  show ?thesis
    unfolding squeeze_signal_def series_and_def
    by (simp only: last_map2 [OF l2 n2] last_map2 [OF l1 n1] conj_assoc)
qed


lemma ewm_mean_Nil_iff: "ewm_mean s xs = [] \<longleftrightarrow> xs = []"
  by (simp add: ewm_mean_def split: list.splits)

lemma rolling_mean_Nil_iff: "rolling_mean w xs = [] \<longleftrightarrow> xs = []"
  by (simp add: rolling_mean_def)

lemma rolling_std_Nil_iff: "rolling_std w xs = [] \<longleftrightarrow> xs = []"
  by (simp add: rolling_std_def)

lemmas series_defs = series_add_def series_sub_def series_scale_def series_gt_def series_lt_def
  series_and_def

lemmas series_lengths = length_ewm_mean length_rolling_mean length_rolling_std

lemmas series_Nil = ewm_mean_Nil_iff rolling_mean_Nil_iff rolling_std_Nil_iff

lemma last_in_squeeze:
  assumes "0 < w" "w \<le> length d" "nat L = w"
  shows "last (in_squeeze d L bb kc) =
     (nan_cmp (\<lambda>x y. x > y)
        (nan_op (-) (Some (mean (drop (length d - w) (map close d))))
           (nan_op (*) (Some bb)
              (if w < 2 then None else Some (sample_std (drop (length d - w) (map close d))))))
        (nan_op (-) (Some (last (ewm_mean L (map close d))))
           (nan_op (*) (Some kc) (Some (mean (drop (length d - w) (map (\<lambda>c. high c - low c) d))))))
      \<and>
      nan_cmp (\<lambda>x y. x < y)
        (nan_op (+) (Some (mean (drop (length d - w) (map close d))))
           (nan_op (*) (Some bb)
              (if w < 2 then None else Some (sample_std (drop (length d - w) (map close d))))))
        (nan_op (+) (Some (last (ewm_mean L (map close d))))
           (nan_op (*) (Some kc) (Some (mean (drop (length d - w) (map (\<lambda>c. high c - low c) d)))))))"
proof -
  have ne: "d \<noteq> []" using assms by auto
  have sma: "last (rolling_mean w (map close d)) = Some (mean (drop (length d - w) (map close d)))"
    using last_rolling_mean [of "map close d" w] assms ne by simp
  have std: "last (rolling_std w (map close d)) =
      (if w < 2 then None else Some (sample_std (drop (length d - w) (map close d))))"
    using last_rolling_std [of "map close d" w] assms ne by simp
  have atr: "last (rolling_mean w (map (\<lambda>c. high c - low c) d)) =
      Some (mean (drop (length d - w) (map (\<lambda>c. high c - low c) d)))"
    using last_rolling_mean [of "map (\<lambda>c. high c - low c) d" w] assms ne by simp
  have ema: "last (map Some (ewm_mean L (map close d))) = Some (last (ewm_mean L (map close d)))"
    using ne by (simp add: last_map series_Nil)
  show ?thesis
    unfolding in_squeeze_def bb_lower_def bb_upper_def kc_lower_def kc_upper_def Let_def series_defs
      assms(3)
    using ne
    by (simp add: last_zip last_map series_lengths series_Nil sma std atr)
qed

lemma squeeze_try_short:
  "int (length d) < L + 26 \<Longrightarrow> squeeze_try d L bb kc vol = Inr (False, Map.empty)"
  by (simp add: squeeze_try_def)

lemma squeeze_try_span:
  "L + 26 \<le> int (length d) \<Longrightarrow> L < 1 \<Longrightarrow> squeeze_try d L bb kc vol = Inl span_error"
  by (simp add: squeeze_try_def)

lemma squeeze_try_signal:
  assumes "1 \<le> L" and "L + 26 \<le> int (length d)" and "volume (last d) = Finite x"
  shows "squeeze_try d L bb kc vol =
     Inr (last (in_squeeze d L bb kc) \<and> last (high_vol d L vol) \<and> last (macd_bull d),
          signal_details (close (last d)) (py_trunc x)
            (last (in_squeeze d L bb kc)) (last (high_vol d L vol)) (last (macd_bull d))
            (last (in_squeeze d L bb kc) \<and> last (high_vol d L vol) \<and> last (macd_bull d)))"
proof -
  have "d \<noteq> []" using assms by auto
  then show ?thesis
    using assms by (simp add: squeeze_try_def last_squeeze_signal)
qed

lemma squeeze_try_overflow:
  assumes "1 \<le> L" and "L + 26 \<le> int (length d)" and "volume (last d) = PosInf \<or> volume (last d) = NegInf"
  shows "squeeze_try d L bb kc vol = Inl overflow_error"
  using assms by (auto simp: squeeze_try_def)

lemma ewm_from_replicate: "ewm_from \<alpha> c (replicate n c) = replicate n c"
  by (induction n) (simp_all add: algebra_simps)

lemma ewm_from_append:
  "ewm_from \<alpha> y (xs @ ys) = ewm_from \<alpha> y xs @ ewm_from \<alpha> (last (y # ewm_from \<alpha> y xs)) ys"
  by (induction xs arbitrary: y) simp_all

lemma ewm_from_replicate_append:
  "ewm_from \<alpha> c (replicate n c @ ys) = replicate n c @ ewm_from \<alpha> c ys"
  by (induction n) (simp_all add: algebra_simps)

lemma ewm_mean_replicate_append:
  "0 < n \<Longrightarrow> ewm_mean s (replicate n c @ ys) = replicate n c @ ewm_from (2 / (real_of_int s + 1)) c ys"
  by (cases n) (simp_all add: ewm_mean_def ewm_from_replicate_append)

lemma those_replicate_append:
  "those (replicate n (Some x) @ ys) = map_option (\<lambda>zs. replicate n x @ zs) (those ys)"
  by (induction n) (simp_all add: option.map_comp comp_def option.map_ident)

lemma those_replicate: "those (replicate n (Some x)) = Some (replicate n x)"
  using those_replicate_append [of n x "[]"] by simp

lemma last_high_vol:
  assumes "0 < w" "w \<le> length d" "nat L = w"
    and "those (drop (length d - w) (map (\<lambda>c. inf_to_nan (volume c)) d)) = Some vs"
  shows "last (high_vol d L vol) = float_gt (volume (last d)) (Some (vol * mean vs))"
proof -
  have ne: "d \<noteq> []" using assms by auto
  have avg: "last (rolling_mean_na w (map (\<lambda>c. inf_to_nan (volume c)) d)) = Some (mean vs)"
    using last_rolling_mean_na [of "map (\<lambda>c. inf_to_nan (volume c)) d" w] assms ne by simp
  show ?thesis
    unfolding high_vol_def Let_def series_defs assms(3)
    using ne by (simp add: last_zip last_map length_rolling_mean_na rolling_mean_na_Nil_iff avg)
qed

lemma macd_Nil_iff: "macd d = [] \<longleftrightarrow> d = []"
  using length_macd [of d] by (metis length_0_conv)

lemma last_macd_bull:
  "d \<noteq> [] \<Longrightarrow> last (macd_bull d) = (last (macd d) > last (ewm_mean 9 (macd d)))"
  unfolding macd_bull_def
  by (simp add: last_zip last_map series_lengths series_Nil macd_Nil_iff)

lemma macd_replicate_append:
  assumes "0 < n"
  shows "macd (replicate n x @ ys) =
     replicate n 0 @ map2 (-) (ewm_from (2 / 13) (close x) (map close ys))
                              (ewm_from (2 / 27) (close x) (map close ys))"
  using assms
  by (simp add: macd_def ewm_mean_replicate_append length_ewm_from)

lemma rally_in_squeeze: "last (in_squeeze rally_frame 20 2 1.5) = True"
  by (simp add: last_in_squeeze [of 20] rally_frame_def bar_def ewm_mean_replicate_append
      mean_def sample_std_def sum_list_replicate)

lemma rally_in_squeeze_narrow: "last (in_squeeze rally_frame 20 2 1) = False"
  by (simp add: last_in_squeeze [of 20] rally_frame_def bar_def ewm_mean_replicate_append
      mean_def sample_std_def sum_list_replicate)

lemma rally_high_vol: "last (high_vol rally_frame 20 1.5) = True"
proof -
  have "those (drop (length rally_frame - 20) (map (\<lambda>c. inf_to_nan (volume c)) rally_frame)) =
      Some (replicate 14 1000 @ [1000, 1000, 1000, 1000, 1000, 5000])"
    by (simp add: rally_frame_def bar_def those_replicate_append)
  from last_high_vol [OF _ _ _ this, of 20 "1.5"] show ?thesis
    by (simp add: rally_frame_def bar_def mean_def sum_list_replicate)
qed

lemma rally_macd_bull: "last (macd_bull rally_frame) = True"
  by (simp add: last_macd_bull rally_frame_def macd_replicate_append ewm_mean_replicate_append bar_def)

lemma sample_std_nonneg: "2 \<le> length ws \<Longrightarrow> 0 \<le> sample_std ws"
  unfolding sample_std_def
  by (intro real_sqrt_ge_zero divide_nonneg_nonneg sum_list_nonneg) auto

lemma mean_nonneg: "(\<And>x. x \<in> set ws \<Longrightarrow> 0 \<le> x) \<Longrightarrow> 0 \<le> mean ws"
  unfolding mean_def by (intro divide_nonneg_nonneg sum_list_nonneg) auto

lemma in_squeeze_field:
  "snd (calculate_squeeze d L bb kc vol) ''in_squeeze'' =
     (if 1 \<le> L \<and> L + 26 \<le> int (length d)
      then (case py_int (volume (last d)) of
              Inl msg \<Rightarrow> None
            | Inr v \<Rightarrow> Some (JBool (last (in_squeeze d L bb kc))))
      else None)"
  by (simp add: calculate_squeeze_def squeeze_try_def signal_details_def error_details_def
      split: sum.splits)

lemma last_in_squeeze_window_one:
  assumes "L = 1" "d \<noteq> []"
  shows "last (in_squeeze d L bb kc) = False"
  using assms last_in_squeeze [of 1 d L bb kc] by (cases d) simp_all

lemma last_in_squeeze_real:
  assumes "2 \<le> w" "w \<le> length d" "nat L = w"
  shows "last (in_squeeze d L bb kc) =
     (mean (drop (length d - w) (map close d)) - bb * sample_std (drop (length d - w) (map close d))
        > last (ewm_mean L (map close d)) - kc * mean (drop (length d - w) (map (\<lambda>c. high c - low c) d))
      \<and>
      mean (drop (length d - w) (map close d)) + bb * sample_std (drop (length d - w) (map close d))
        < last (ewm_mean L (map close d)) + kc * mean (drop (length d - w) (map (\<lambda>c. high c - low c) d)))"
  using assms last_in_squeeze [of w d L bb kc] by simp

lemma in_squeeze_bb_mono:
  assumes "1 \<le> L" "L + 26 \<le> int (length d)" "bb \<le> bb'" "last (in_squeeze d L bb' kc)"
  shows "last (in_squeeze d L bb kc)"
proof (cases "L = 1")
  case True
  moreover have "d \<noteq> []" using assms by auto
  ultimately show ?thesis using assms last_in_squeeze_window_one [of L d bb' kc] by auto
next
  case False
  define w where "w = nat L"
  have w: "2 \<le> w" "w \<le> length d" "nat L = w" using assms False by (auto simp: w_def)
  define s where "s = sample_std (drop (length d - w) (map close d))"
  have "0 \<le> s" unfolding s_def using w by (intro sample_std_nonneg) simp
  then have "bb * s \<le> bb' * s" using assms(3) by (simp add: mult_right_mono)
  then show ?thesis
    using assms(4) unfolding last_in_squeeze_real [OF w] s_def [symmetric] by linarith
qed

lemma in_squeeze_kc_mono:
  assumes "1 \<le> L" "L + 26 \<le> int (length d)" "kc \<le> kc'" "\<forall>x \<in> set d. low x \<le> high x"
    "last (in_squeeze d L bb kc)"
  shows "last (in_squeeze d L bb kc')"
proof (cases "L = 1")
  case True
  moreover have "d \<noteq> []" using assms by auto
  ultimately show ?thesis using assms last_in_squeeze_window_one [of L d bb kc] by auto
next
  case False
  define w where "w = nat L"
  have w: "2 \<le> w" "w \<le> length d" "nat L = w" using assms False by (auto simp: w_def)
  define a where "a = mean (drop (length d - w) (map (\<lambda>c. high c - low c) d))"
  have "0 \<le> a" unfolding a_def
  proof (rule mean_nonneg)
    fix x assume "x \<in> set (drop (length d - w) (map (\<lambda>c. high c - low c) d))"
    then have "x \<in> set (map (\<lambda>c. high c - low c) d)" by (rule in_set_dropD)
    then show "0 \<le> x" using assms(4) by auto
  qed
  then have "kc * a \<le> kc' * a" using assms(3) by (simp add: mult_right_mono)
  then show ?thesis
    using assms(5) unfolding last_in_squeeze_real [OF w] a_def [symmetric] by linarith
qed

lemma rally_in_squeeze_bb1: "last (in_squeeze rally_frame 20 1 1.5) = True"
  by (simp add: last_in_squeeze [of 20] rally_frame_def bar_def ewm_mean_replicate_append
      mean_def sample_std_def sum_list_replicate)

lemma rally_in_squeeze_kc3: "last (in_squeeze rally_frame 20 2 3) = True"
  by (simp add: last_in_squeeze [of 20] rally_frame_def bar_def ewm_mean_replicate_append
      mean_def sample_std_def sum_list_replicate)

lemma rally_length: "length rally_frame = 50"
  by (simp add: rally_frame_def)

lemma rally_well_formed: "\<forall>x \<in> set rally_frame. low x \<le> high x"
  by (simp add: rally_frame_def bar_def)

lemma mean_replicate: "0 < n \<Longrightarrow> mean (replicate n x) = x"
  by (simp add: mean_def sum_list_replicate)

lemma sample_std_replicate: "sample_std (replicate n x) = 0"
  by (cases "n = 0") (simp_all add: sample_std_def mean_replicate sum_list_replicate)

lemma ewm_mean_replicate: "ewm_mean s (replicate n x) = replicate n x"
  using ewm_mean_replicate_append [of n s x "[]"] by (cases "n = 0") (simp_all add: ewm_mean_def)

lemma macd_replicate: "macd (replicate n x) = replicate n 0"
  by (simp add: macd_def ewm_mean_replicate map_replicate_const [symmetric] zip_replicate)

lemma flat_in_squeeze:
  assumes "1 \<le> L" "L + 26 \<le> int n"
  shows "last (in_squeeze (replicate n \<lparr>close = c, high = c, low = c, volume = Finite v\<rparr>) L bb kc) = False"
proof (cases "L = 1")
  case True
  moreover have "replicate n \<lparr>close = c, high = c, low = c, volume = Finite v\<rparr> \<noteq> []" using assms by auto
  ultimately show ?thesis by (rule last_in_squeeze_window_one)
next
  case False
  define w where "w = nat L"
  have w: "2 \<le> w" "w \<le> n" "nat L = w" "0 < w" "0 < n" using assms False by (auto simp: w_def)
  have k: "n - (n - w) = w" using w by simp
  show ?thesis
    using w last_in_squeeze_real [of w "replicate n \<lparr>close = c, high = c, low = c, volume = Finite v\<rparr>" L bb kc]
    by (simp add: k mean_replicate sample_std_replicate ewm_mean_replicate)
qed

lemma flat_high_vol:
  assumes "1 \<le> L" "L + 26 \<le> int n"
  shows "last (high_vol (replicate n \<lparr>close = c, high = c, low = c, volume = Finite v\<rparr>) L vol) =
     (v > vol * v)"
proof -
  define w where "w = nat L"
  have w: "0 < w" "w \<le> n" "nat L = w" "0 < n" using assms by (auto simp: w_def)
  have k: "n - (n - w) = w" using w by simp
  have "those (drop (length (replicate n \<lparr>close = c, high = c, low = c, volume = Finite v\<rparr>) - w)
      (map (\<lambda>c. inf_to_nan (volume c))
         (replicate n \<lparr>close = c, high = c, low = c, volume = Finite v\<rparr>))) = Some (replicate w v)"
    by (simp add: k those_replicate)
  from last_high_vol [OF _ _ w(3) this, of vol] show ?thesis
    using w by (simp add: mean_replicate)
qed

lemma flat_macd_bull:
  assumes "0 < n"
  shows "last (macd_bull (replicate n x)) = False"
  using assms by (simp add: last_macd_bull macd_replicate ewm_mean_replicate)

section \<open>The loop of \<open>scan_markets\<close>\<close>

lemma calculate_squeeze_default:
  assumes "\<not> length d < 50"
  shows "calculate_squeeze d 20 bb kc vol =
     (case py_int (volume (last d)) of
        Inl msg \<Rightarrow> (False, error_details msg)
      | Inr v \<Rightarrow>
          (last (in_squeeze d 20 bb kc) \<and> last (high_vol d 20 vol) \<and> last (macd_bull d),
           signal_details (close (last d)) v
             (last (in_squeeze d 20 bb kc)) (last (high_vol d 20 vol)) (last (macd_bull d))
             (last (in_squeeze d 20 bb kc) \<and> last (high_vol d 20 vol) \<and> last (macd_bull d))))"
proof -
  have "d \<noteq> []" using assms by auto
  then show ?thesis
    using assms
    by (simp add: calculate_squeeze_def squeeze_try_def last_squeeze_signal split: sum.splits)
qed

lemma map_add_map_of_snoc: "m ++ map_of (xs @ [(k, v)]) = m(k \<mapsto> v) ++ map_of xs"
  by (rule ext) (simp add: map_add_def split: option.splits)

lemma ticker_result_cases:
  "ticker_result e k t =
     (case fetch_yahoo_data e k t of
        None \<Rightarrow> (False, no_data_details)
      | Some d \<Rightarrow>
          if length d < 50 then (False, no_data_details)
          else (case py_int (volume (last d)) of
                  Inl msg \<Rightarrow>
                    (False, (error_details msg)(''timestamp'' \<mapsto> JStr (now_iso e k)))
                | Inr v \<Rightarrow>
                    (last (in_squeeze d 20 2 1.5) \<and> last (high_vol d 20 1.5) \<and> last (macd_bull d),
                     (signal_details (close (last d)) v
                        (last (in_squeeze d 20 2 1.5)) (last (high_vol d 20 1.5)) (last (macd_bull d))
                        (last (in_squeeze d 20 2 1.5) \<and> last (high_vol d 20 1.5) \<and> last (macd_bull d)))
                     (''timestamp'' \<mapsto> JStr (now_iso e k)))))"
  unfolding ticker_result_def
  by (auto split: option.splits sum.splits simp: calculate_squeeze_default)

lemma scan_ticker_eq:
  "scan_ticker e k raw (temp, a) =
     Inr (temp(upper (strip raw) \<mapsto> snd (ticker_result e k (upper (strip raw)))),
          a\<lparr>events := events a @ alert_of (upper (strip raw)) (snd (ticker_result e k (upper (strip raw))))\<rparr>)"
  unfolding scan_ticker_def Let_def alert_of_def ticker_result_cases
  by (auto split: option.splits sum.splits
      simp: no_data_details_def signal_details_def error_details_def)

lemma scan_loop_eq:
  "scan_loop e k ts (temp, a) =
     Inr (temp ++ map_of (rev (scan_results e k ts)),
          a\<lparr>events := events a @ scan_alerts e k ts\<rparr>)"
proof (induction ts arbitrary: k temp a)
  case Nil
  then show ?case by (simp add: scan_alerts_def)
next
  case (Cons t ts)
  let ?key = "upper (strip t)"
  let ?det = "snd (ticker_result e k ?key)"
  have "scan_loop e k (t # ts) (temp, a) =
      scan_loop e (Suc k) ts (temp(?key \<mapsto> ?det), a\<lparr>events := events a @ alert_of ?key ?det\<rparr>)"
    by (simp add: scan_ticker_eq)
  also have "\<dots> = Inr (temp(?key \<mapsto> ?det) ++ map_of (rev (scan_results e (Suc k) ts)),
      a\<lparr>events := events a @ alert_of ?key ?det @ scan_alerts e (Suc k) ts\<rparr>)"
    by (subst Cons.IH) simp
  also have "\<dots> = Inr (temp ++ map_of (rev (scan_results e k (t # ts))),
      a\<lparr>events := events a @ scan_alerts e k (t # ts)\<rparr>)"
    by (simp add: scan_alerts_def map_add_map_of_snoc del: map_of_append)
  finally show ?case .
qed


lemma scan_markets_eq:
  "scan_markets e tickers a =
     Inr (publish (map_of (rev (scan_results e 0 tickers)))
            (a\<lparr>events := events a @ scan_alerts e 0 tickers\<rparr>))"
  by (simp add: scan_markets_def scan_loop_eq)

lemma fst_scan_results: "fst ` set (scan_results e k ts) = (\<lambda>t. upper (strip t)) ` set ts"
  by (induction ts arbitrary: k) auto

lemma dom_scan_results:
  "dom (map_of (rev (scan_results e k ts))) = (\<lambda>t. upper (strip t)) ` set ts"
  by (simp add: dom_map_of_conv_image_fst fst_scan_results)

lemma scan_results_last_wins:
  "i < length ts \<Longrightarrow> upper (strip (ts ! i)) \<notin> (\<lambda>t. upper (strip t)) ` set (drop (Suc i) ts) \<Longrightarrow>
   map_of (rev (scan_results e k ts)) (upper (strip (ts ! i))) =
     Some (snd (ticker_result e (k + i) (upper (strip (ts ! i)))))"
proof (induction ts arbitrary: k i)
  case Nil
  then show ?case by simp
next
  case (Cons t ts)
  show ?case
  proof (cases i)
    case 0
    have "upper (strip t) \<notin> fst ` set (scan_results e (Suc k) ts)"
      using Cons.prems(2) 0 by (simp add: fst_scan_results)
    then have "map_of (rev (scan_results e (Suc k) ts)) (upper (strip t)) = None"
      by (simp add: map_of_eq_None_iff)
    then show ?thesis using 0 by (simp add: map_add_def)
  next
    case (Suc j)
    have "map_of (rev (scan_results e (Suc k) ts)) (upper (strip (ts ! j))) =
        Some (snd (ticker_result e (Suc k + j) (upper (strip (ts ! j)))))"
      using Cons.prems Suc by (intro Cons.IH) simp_all
    then show ?thesis using Suc by (simp add: map_add_def)
  qed
qed

lemma scan_points_not_Nil: "scan_points e k ts st \<noteq> []"
  by (cases ts) simp_all

lemma scan_points_last:
  "last (scan_points e k ts (temp, a)) =
     publish (temp ++ map_of (rev (scan_results e k ts)))
       (a\<lparr>events := events a @ scan_alerts e k ts\<rparr>)"
proof (induction ts arbitrary: k temp a)
  case Nil
  then show ?case by (simp add: scan_alerts_def)
next
  case (Cons t ts)
  let ?key = "upper (strip t)"
  let ?det = "snd (ticker_result e k ?key)"
  have "last (scan_points e k (t # ts) (temp, a)) =
      last (scan_points e (Suc k) ts (temp(?key \<mapsto> ?det), a\<lparr>events := events a @ alert_of ?key ?det\<rparr>))"
    by (simp add: scan_ticker_eq scan_points_not_Nil)
  also have "\<dots> = publish (temp(?key \<mapsto> ?det) ++ map_of (rev (scan_results e (Suc k) ts)))
      (a\<lparr>events := events a @ alert_of ?key ?det @ scan_alerts e (Suc k) ts\<rparr>)"
    by (subst Cons.IH) simp
  also have "\<dots> = publish (temp ++ map_of (rev (scan_results e k (t # ts))))
      (a\<lparr>events := events a @ scan_alerts e k (t # ts)\<rparr>)"
    by (simp add: scan_alerts_def map_add_map_of_snoc del: map_of_append)
  finally show ?case .
qed

lemma scan_points_butlast:
  "p \<in> set (butlast (scan_points e k ts (temp, a))) \<Longrightarrow> squeeze_data p = squeeze_data a"
proof (induction ts arbitrary: k temp a)
  case Nil
  then show ?case by simp
next
  case (Cons t ts)
  let ?key = "upper (strip t)"
  let ?det = "snd (ticker_result e k ?key)"
  let ?st = "(temp(?key \<mapsto> ?det), a\<lparr>events := events a @ alert_of ?key ?det\<rparr>)"
  have "p = a \<or> p \<in> set (butlast (scan_points e (Suc k) ts ?st))"
    using Cons.prems by (simp add: scan_ticker_eq scan_points_not_Nil)
  then show ?case
  proof
    assume "p = a"
    then show ?thesis by simp
  next
    assume "p \<in> set (butlast (scan_points e (Suc k) ts ?st))"
    then have "squeeze_data p = squeeze_data (a\<lparr>events := events a @ alert_of ?key ?det\<rparr>)"
      by (rule Cons.IH)
    then show ?thesis by simp
  qed
qed

lemma in_butlast_or_last:
  "x \<in> set xs \<Longrightarrow> x \<in> set (butlast xs) \<or> x = last xs"
  by (induction xs) (auto split: if_splits)

lemma scan_points_cases:
  assumes "p \<in> set (scan_points e k ts st)"
  shows "p \<in> set (butlast (scan_points e k ts st)) \<or> p = last (scan_points e k ts st)"
  using assms by (rule in_butlast_or_last)

lemma normalise_AMD: "upper (strip ''AMD'') = ''AMD''"
  by (simp add: upper_def strip_def is_space_def upper_char_def)

lemma normalise_GME: "upper (strip ''GME'') = ''GME''"
  by (simp add: upper_def strip_def is_space_def upper_char_def)

lemma rally_last: "last rally_frame = bar 106 5000"
  by (simp add: rally_frame_def)

lemma rally_result:
  "calculate_squeeze rally_frame 20 2 (3 / 2) (3 / 2) =
     (True, signal_details 106 5000 True True True True)"
  using calculate_squeeze_default [of rally_frame 2 "3 / 2" "3 / 2"]
    rally_in_squeeze rally_high_vol rally_macd_bull
  by (simp add: rally_length rally_last bar_def py_trunc_def)

lemma overflow_length: "length overflow_frame = 50"
  by (simp add: overflow_frame_def)

lemma overflow_last: "volume (last overflow_frame) = PosInf"
  by (simp add: overflow_frame_def)

lemma overflow_result:
  "calculate_squeeze overflow_frame 20 bb kc vol = (False, error_details overflow_error)"
  using calculate_squeeze_default [of overflow_frame bb kc vol]
  by (simp add: overflow_length overflow_last)

lemma absent_ticker_result: "ticker_result absent_env k t = (False, no_data_details)"
  by (simp add: ticker_result_def absent_env_def absent_fetch_def)

lemma mixed_ticker_result_AMD: "ticker_result mixed_env k ''AMD'' = (False, no_data_details)"
  by (simp add: ticker_result_def mixed_env_def mixed_fetch_def)

lemma mixed_ticker_result_GME: "ticker_result mixed_env k ''GME'' = (True, rally_details)"
  by (simp add: ticker_result_def mixed_env_def mixed_fetch_def rally_length rally_result
      rally_details_def fixed_clock_def)

lemma alert_of_no_data: "alert_of t no_data_details = []"
  by (simp add: alert_of_def no_data_details_def)

lemma alert_of_rally: "alert_of t rally_details = [Alert t (JFloat 106)]"
  by (simp add: alert_of_def rally_details_def signal_details_def)

lemma entry_has_error_key: "snd (ticker_result e k t) ''error'' \<noteq> None"
  by (simp add: ticker_result_cases no_data_details_def signal_details_def error_details_def
      split: option.splits sum.splits)

lemma normalise_NVDA: "upper (strip ''NVDA'') = ''NVDA''"
  by (simp add: upper_def strip_def is_space_def upper_char_def)

lemma faulty_ticker_result_AMD: "ticker_result faulty_env k ''AMD'' = (False, no_data_details)"
  by (simp add: ticker_result_def faulty_env_def faulty_fetch_def)

lemma faulty_ticker_result_NVDA: "ticker_result faulty_env k ''NVDA'' = (False, overflow_details)"
  by (simp add: ticker_result_def faulty_env_def faulty_fetch_def overflow_length overflow_result
      overflow_details_def fixed_clock_def)

lemma faulty_ticker_result_GME: "ticker_result faulty_env k ''GME'' = (True, rally_details)"
  by (simp add: ticker_result_def faulty_env_def faulty_fetch_def rally_length rally_result
      rally_details_def fixed_clock_def)

lemma rally_result_narrow:
  "calculate_squeeze rally_frame 20 2 1 (3 / 2) =
     (False, signal_details 106 5000 False True True False)"
  using calculate_squeeze_default [of rally_frame 2 1 "3 / 2"]
    rally_in_squeeze_narrow rally_high_vol rally_macd_bull
  by (simp add: rally_length rally_last bar_def py_trunc_def)

lemma ticker_result_absent:
  "fetch_yahoo_data e k t = None \<Longrightarrow> ticker_result e k t = (False, no_data_details)"
  by (simp add: ticker_result_def)

lemma ticker_result_fault:
  assumes "fetch_yahoo_data e k t = Some d" and "\<not> length d < 50"
    and "squeeze_try d 20 2 1.5 1.5 = Inl msg"
  shows "ticker_result e k t =
     (False, (error_details msg)(''timestamp'' \<mapsto> JStr (now_iso e k)))"
  using assms by (simp add: ticker_result_def calculate_squeeze_def)

lemma alert_of_overflow: "alert_of t overflow_details = []"
  by (simp add: alert_of_def overflow_details_def error_details_def)

section \<open>Fusion of the three conditions\<close>

text \<open>
  C1, as amended. For a lookback \<open>L\<close> of at least 1 and a frame of at least
  \<open>L + 26\<close> rows whose last volume is finite, \<open>calculate_squeeze\<close> returns a
  dictionary with \<open>error = False\<close>, with the price and the volume of the last
  row, and with boolean fields \<open>in_squeeze\<close>, \<open>high_volume\<close>,
  \<open>macd_bullish\<close> and \<open>signal\<close>, where \<open>signal\<close>, like the returned flag, is
  the conjunction of the other three: \<open>signal\<close> is true only when all three
  are.
\<close>

theorem calculate_squeeze_fusion:
  assumes "1 \<le> L" and "L + 26 \<le> int (length d)" and "volume (last d) = Finite x"
  shows "\<exists>sq hv mb det.
     calculate_squeeze d L bb kc vol = (sq \<and> hv \<and> mb, det) \<and>
     det ''error'' = Some (JBool False) \<and>
     det ''price'' = Some (JFloat (close (last d))) \<and>
     det ''volume'' = Some (JInt (py_trunc x)) \<and>
     det ''in_squeeze'' = Some (JBool sq) \<and>
     det ''high_volume'' = Some (JBool hv) \<and>
     det ''macd_bullish'' = Some (JBool mb) \<and>
     det ''signal'' = Some (JBool (sq \<and> hv \<and> mb))"
  unfolding calculate_squeeze_def squeeze_try_signal [OF assms]
  by (simp add: signal_details_def)

theorem calculate_squeeze_fusion_witness:
  "(1::int) \<le> 20 \<and> (20::int) + 26 \<le> int (length rally_frame) \<and>
   volume (last rally_frame) = Finite 5000 \<and>
   fst (calculate_squeeze rally_frame 20 2 1.5 1.5) = True \<and>
   snd (calculate_squeeze rally_frame 20 2 1.5 1.5) ''error'' = Some (JBool False) \<and>
   snd (calculate_squeeze rally_frame 20 2 1.5 1.5) ''in_squeeze'' = Some (JBool True) \<and>
   snd (calculate_squeeze rally_frame 20 2 1.5 1.5) ''high_volume'' = Some (JBool True) \<and>
   snd (calculate_squeeze rally_frame 20 2 1.5 1.5) ''macd_bullish'' = Some (JBool True) \<and>
   snd (calculate_squeeze rally_frame 20 2 1.5 1.5) ''signal'' = Some (JBool True) \<and>
   fst (calculate_squeeze rally_frame 20 2 1 1.5) = False \<and>
   snd (calculate_squeeze rally_frame 20 2 1 1.5) ''error'' = Some (JBool False) \<and>
   snd (calculate_squeeze rally_frame 20 2 1 1.5) ''in_squeeze'' = Some (JBool False) \<and>
   snd (calculate_squeeze rally_frame 20 2 1 1.5) ''high_volume'' = Some (JBool True) \<and>
   snd (calculate_squeeze rally_frame 20 2 1 1.5) ''macd_bullish'' = Some (JBool True) \<and>
   snd (calculate_squeeze rally_frame 20 2 1 1.5) ''signal'' = Some (JBool False)"
  using calculate_squeeze_fusion [of 20 rally_frame 5000 2 "1.5" "1.5"]
    calculate_squeeze_fusion [of 20 rally_frame 5000 2 1 "1.5"]
  by (simp add: rally_length rally_last bar_def rally_result rally_result_narrow
      signal_details_def)

text \<open>
  C1, as stated, fails for a lookback below 1: with \<open>L = 0\<close> a frame of 26
  rows is long enough, pandas rejects the span, and the \<open>except\<close> branch
  returns the dictionary with \<open>error = True\<close> and no \<open>signal\<close> field.
\<close>

theorem span_rejected_counterexample:
  "(0::int) + 26 \<le> int (length (replicate 26 flat_candle)) \<and>
   fst (calculate_squeeze (replicate 26 flat_candle) 0 2 1.5 1.5) = False \<and>
   snd (calculate_squeeze (replicate 26 flat_candle) 0 2 1.5 1.5) ''error'' = Some (JBool True) \<and>
   snd (calculate_squeeze (replicate 26 flat_candle) 0 2 1.5 1.5) ''message'' =
     Some (JStr ''span must satisfy: span >= 1'') \<and>
   snd (calculate_squeeze (replicate 26 flat_candle) 0 2 1.5 1.5) ''signal'' = None"
  by (simp add: calculate_squeeze_def squeeze_try_def error_details_def span_error_def)

section \<open>Frames shorter than \<open>L + 26\<close>\<close>

text \<open>
  C2. On a frame of 45 rows with the default parameters, \<open>calculate_squeeze\<close>
  returns \<open>False\<close> and the empty dictionary: it carries neither
  \<open>error\<close> nor \<open>message\<close>.
\<close>

theorem calculate_squeeze_short_frame:
  "calculate_squeeze (replicate 45 flat_candle) 20 2 1.5 1.5 = (False, Map.empty) \<and>
   snd (calculate_squeeze (replicate 45 flat_candle) 20 2 1.5 1.5) ''error'' = None \<and>
   snd (calculate_squeeze (replicate 45 flat_candle) 20 2 1.5 1.5) ''message'' = None"
  by (simp add: calculate_squeeze_def squeeze_try_def)

section \<open>The multipliers and the squeeze condition\<close>

text \<open>
  C6, as amended. On a fixed frame, raising the \<open>bb\<close> multiplier can only turn
  the returned \<open>in_squeeze\<close> from true to false: if it is true at the larger
  \<open>bb\<close>, it is true at the smaller one. The \<open>kc\<close> multiplier acts the other
  way: on candles with \<open>low \<le> high\<close>, if \<open>in_squeeze\<close> is true at the smaller
  \<open>kc\<close>, it is true at the larger one.
\<close>

theorem in_squeeze_multipliers:
  "(bb \<le> bb' \<and> snd (calculate_squeeze d L bb' kc vol) ''in_squeeze'' = Some (JBool True)
      \<longrightarrow> snd (calculate_squeeze d L bb kc vol) ''in_squeeze'' = Some (JBool True)) \<and>
   (kc \<le> kc' \<and> (\<forall>x \<in> set d. low x \<le> high x) \<and>
    snd (calculate_squeeze d L bb kc vol) ''in_squeeze'' = Some (JBool True)
      \<longrightarrow> snd (calculate_squeeze d L bb kc' vol) ''in_squeeze'' = Some (JBool True))"
  unfolding in_squeeze_field
  using in_squeeze_bb_mono [of L d bb bb' kc] in_squeeze_kc_mono [of L d kc kc' bb]
  by (auto split: if_splits sum.splits)

theorem in_squeeze_multipliers_witness:
  "((1::real) \<le> 2 \<and> snd (calculate_squeeze rally_frame 20 2 1.5 1.5) ''in_squeeze'' = Some (JBool True)
     \<and> snd (calculate_squeeze rally_frame 20 1 1.5 1.5) ''in_squeeze'' = Some (JBool True)) \<and>
   ((1.5::real) \<le> 3 \<and>
    snd (calculate_squeeze rally_frame 20 2 1.5 1.5) ''in_squeeze'' = Some (JBool True)
     \<and> snd (calculate_squeeze rally_frame 20 2 3 1.5) ''in_squeeze'' = Some (JBool True))"
  using in_squeeze_multipliers [where bb = 1 and bb' = 2 and d = rally_frame and L = 20
      and kc = "1.5" and vol = "1.5" and kc' = 3]
    in_squeeze_multipliers [where bb = 2 and bb' = 2 and d = rally_frame and L = 20
      and kc = "1.5" and vol = "1.5" and kc' = 3]
    rally_well_formed rally_in_squeeze
  by (simp add: in_squeeze_field rally_length rally_last bar_def)

text \<open>
  C6, as stated, fails: on the sample frame with \<open>bb = 2\<close>, raising \<open>kc\<close>
  from 1 to 1.5 turns \<open>in_squeeze\<close> from false to true.
\<close>

theorem widening_kc_counterexample:
  "snd (calculate_squeeze rally_frame 20 2 1 1.5) ''in_squeeze'' = Some (JBool False) \<and>
   snd (calculate_squeeze rally_frame 20 2 1.5 1.5) ''in_squeeze'' = Some (JBool True)"
  using rally_in_squeeze rally_in_squeeze_narrow
  by (simp add: in_squeeze_field rally_length rally_last bar_def)

section \<open>Frames of identical candles without range\<close>

text \<open>
  C8, as amended. For a lookback \<open>L\<close> of at least 1, on a frame of exactly
  \<open>L + 26\<close> rows that all have the same close, with \<open>high = low = close\<close>
  and the same volume, \<open>calculate_squeeze\<close> returns a dictionary with
  \<open>error = False\<close> and \<open>in_squeeze = False\<close>: both bands collapse to a point
  and the comparisons are strict. The other fields are determined as well.
\<close>

theorem flat_frame_not_in_squeeze:
  assumes "1 \<le> L" and "int n = L + 26"
  shows "\<exists>det.
     calculate_squeeze (replicate n \<lparr>close = c, high = c, low = c, volume = Finite v\<rparr>) L bb kc vol =
       (False, det) \<and>
     det ''error'' = Some (JBool False) \<and>
     det ''in_squeeze'' = Some (JBool False) \<and>
     det ''high_volume'' = Some (JBool (v > vol * v)) \<and>
     det ''macd_bullish'' = Some (JBool False) \<and>
     det ''signal'' = Some (JBool False) \<and>
     det ''price'' = Some (JFloat c) \<and>
     det ''volume'' = Some (JInt (py_trunc v))"
proof -
  let ?d = "replicate n \<lparr>close = c, high = c, low = c, volume = Finite v\<rparr>"
  have n: "L + 26 \<le> int n" "0 < n" using assms by auto
  have len: "L + 26 \<le> int (length ?d)" using n by simp
  have lastv: "volume (last ?d) = Finite v" using n by simp
  show ?thesis
    unfolding calculate_squeeze_def squeeze_try_signal [OF assms(1) len lastv]
    using n by (simp add: flat_in_squeeze [OF assms(1) n(1)] flat_high_vol [OF assms(1) n(1)]
        flat_macd_bull signal_details_def)
qed

theorem flat_frame_not_in_squeeze_witness:
  "(1::int) \<le> 20 \<and> int 46 = 20 + 26 \<and>
   fst (calculate_squeeze (replicate 46 \<lparr>close = 10, high = 10, low = 10, volume = Finite 1000\<rparr>)
          20 2 1.5 1.5) = False \<and>
   snd (calculate_squeeze (replicate 46 \<lparr>close = 10, high = 10, low = 10, volume = Finite 1000\<rparr>)
          20 2 1.5 1.5) ''error'' = Some (JBool False) \<and>
   snd (calculate_squeeze (replicate 46 \<lparr>close = 10, high = 10, low = 10, volume = Finite 1000\<rparr>)
          20 2 1.5 1.5) ''in_squeeze'' = Some (JBool False)"
  using flat_frame_not_in_squeeze [of 20 46 10 1000 2 "1.5" "1.5"]
  by auto

text \<open>
  C8, as stated, fails for a lookback below 1: with \<open>L = 0\<close> the frame of
  exactly 26 identical rows is answered by the \<open>except\<close> branch, with
  \<open>error = True\<close> and no \<open>in_squeeze\<close> field.
\<close>

theorem flat_frame_span_counterexample:
  "int 26 = 0 + 26 \<and>
   snd (calculate_squeeze (replicate 26 \<lparr>close = 10, high = 10, low = 10, volume = Finite 1000\<rparr>)
          0 2 1.5 1.5) ''error'' = Some (JBool True) \<and>
   snd (calculate_squeeze (replicate 26 \<lparr>close = 10, high = 10, low = 10, volume = Finite 1000\<rparr>)
          0 2 1.5 1.5) ''in_squeeze'' = None"
  by (simp add: calculate_squeeze_def squeeze_try_def error_details_def)

section \<open>Publication of the snapshot\<close>

text \<open>
  C3. Every scan completes and assigns to \<open>squeeze_data\<close> a snapshot that is
  built from this scan's results alone (nothing of the previous snapshot is
  kept) and whose keys are exactly the normalised configured tickers. At every
  point of the scan at which another thread can take the lock, \<open>get_signals\<close>
  returns either the previous snapshot or the new one.
\<close>

theorem snapshot_replaced_wholesale:
  "\<exists>a'. scan_markets e tickers a = Inr a' \<and>
        squeeze_data a' = map_of (rev (scan_results e 0 tickers)) \<and>
        dom (squeeze_data a') = (\<lambda>t. upper (strip t)) ` set tickers \<and>
        last (scan_points e 0 tickers (Map.empty, a)) = a' \<and>
        (\<forall>p \<in> set (scan_points e 0 tickers (Map.empty, a)).
           get_signals p = get_signals a \<or> get_signals p = get_signals a')"
proof -
  let ?a' = "publish (map_of (rev (scan_results e 0 tickers)))
      (a\<lparr>events := events a @ scan_alerts e 0 tickers\<rparr>)"
  have 1: "scan_markets e tickers a = Inr ?a'" by (rule scan_markets_eq)
  have 2: "squeeze_data ?a' = map_of (rev (scan_results e 0 tickers))" by (simp add: publish_def)
  have 3: "dom (squeeze_data ?a') = (\<lambda>t. upper (strip t)) ` set tickers"
    unfolding 2 by (rule dom_scan_results)
  have 4: "last (scan_points e 0 tickers (Map.empty, a)) = ?a'"
    by (simp add: scan_points_last)
  have 5: "get_signals p = get_signals a \<or> get_signals p = get_signals ?a'"
    if "p \<in> set (scan_points e 0 tickers (Map.empty, a))" for p
  proof -
    from scan_points_cases [OF that]
    show ?thesis
    proof
      assume "p \<in> set (butlast (scan_points e 0 tickers (Map.empty, a)))"
      then have "squeeze_data p = squeeze_data a" by (rule scan_points_butlast)
      then show ?thesis by (simp add: get_signals_def)
    next
      assume "p = last (scan_points e 0 tickers (Map.empty, a))"
      then have "p = ?a'" by (simp only: 4)
      then show ?thesis by simp
    qed
  qed
  show ?thesis
  proof (intro exI conjI ballI)
    show "scan_markets e tickers a = Inr ?a'" by (rule 1)
    show "squeeze_data ?a' = map_of (rev (scan_results e 0 tickers))" by (rule 2)
    show "dom (squeeze_data ?a') = (\<lambda>t. upper (strip t)) ` set tickers" by (rule 3)
    show "last (scan_points e 0 tickers (Map.empty, a)) = ?a'" by (rule 4)
    show "get_signals p = get_signals a \<or> get_signals p = get_signals ?a'"
      if "p \<in> set (scan_points e 0 tickers (Map.empty, a))" for p
      using that by (rule 5)
  qed
qed

theorem snapshot_replaced_wholesale_witness:
  "scan_markets absent_env [''AMD''] stale_app = Inr (publish [''AMD'' \<mapsto> no_data_details] stale_app) \<and>
   stale_app \<in> set (scan_points absent_env 0 [''AMD''] (Map.empty, stale_app)) \<and>
   get_signals stale_app = [''GME'' \<mapsto> rally_details] \<and>
   publish [''AMD'' \<mapsto> no_data_details] stale_app
     \<in> set (scan_points absent_env 0 [''AMD''] (Map.empty, stale_app)) \<and>
   get_signals (publish [''AMD'' \<mapsto> no_data_details] stale_app) = [''AMD'' \<mapsto> no_data_details]"
  using snapshot_replaced_wholesale [of absent_env "[''AMD'']" stale_app]
  by (simp add: scan_markets_eq scan_ticker_eq scan_alerts_def normalise_AMD absent_ticker_result
      alert_of_no_data publish_def get_signals_def stale_app_def)

text \<open>
  C9. \<open>get_signals\<close> on the initial module state returns the empty mapping, and
  so it does at every point of the first scan before the assignment to
  \<open>squeeze_data\<close>.
\<close>

theorem get_signals_before_first_publish:
  "get_signals init_app = Map.empty \<and>
   (\<forall>p \<in> set (butlast (scan_points e 0 tickers (Map.empty, init_app))). get_signals p = Map.empty)"
proof
  show "get_signals init_app = Map.empty"
    by (simp add: get_signals_def init_app_def)
  show "\<forall>p \<in> set (butlast (scan_points e 0 tickers (Map.empty, init_app))). get_signals p = Map.empty"
  proof
    fix p
    assume "p \<in> set (butlast (scan_points e 0 tickers (Map.empty, init_app)))"
    then have "squeeze_data p = squeeze_data init_app" by (rule scan_points_butlast)
    then show "get_signals p = Map.empty" by (simp add: get_signals_def init_app_def)
  qed
qed

theorem get_signals_before_first_publish_witness:
  "init_app \<in> set (butlast (scan_points absent_env 0 [''AMD''] (Map.empty, init_app))) \<and>
   get_signals init_app = Map.empty"
  using get_signals_before_first_publish [of absent_env "[''AMD'']"]
  by (simp add: scan_ticker_eq scan_points_not_Nil)

section \<open>Instruments without data\<close>

text \<open>
  C4, as amended. When the fetch for a ticker returns \<open>None\<close> or a frame of
  fewer than 50 rows, the iteration records for the normalised ticker the
  dictionary with \<open>error = True\<close>, \<open>message = 'No data available'\<close> and
  \<open>signal = False\<close>, and calls no alert.
\<close>

theorem no_data_recorded:
  assumes "fetch_yahoo_data e k (upper (strip raw)) = None \<or>
     (\<exists>d. fetch_yahoo_data e k (upper (strip raw)) = Some d \<and> length d < 50)"
  shows "scan_ticker e k raw (temp, a) =
     Inr (temp(upper (strip raw) \<mapsto>
            [''error'' \<mapsto> JBool True, ''message'' \<mapsto> JStr ''No data available'',
             ''signal'' \<mapsto> JBool False]), a)"
proof -
  have "ticker_result e k (upper (strip raw)) = (False, no_data_details)"
    using assms by (auto simp: ticker_result_def)
  then show ?thesis
    by (simp add: scan_ticker_eq alert_of_no_data) (simp add: no_data_details_def)
qed

theorem no_data_recorded_witness:
  "fetch_yahoo_data absent_env 0 (upper (strip ''AMD'')) = None \<and>
   scan_ticker absent_env 0 ''AMD'' (Map.empty, init_app) =
     Inr ([''AMD'' \<mapsto>
            [''error'' \<mapsto> JBool True, ''message'' \<mapsto> JStr ''No data available'',
             ''signal'' \<mapsto> JBool False]], init_app) \<and>
   fetch_yahoo_data short_env 0 (upper (strip ''AMD'')) = Some (replicate 49 flat_candle) \<and>
   length (replicate 49 flat_candle) < 50 \<and>
   scan_ticker short_env 0 ''AMD'' (Map.empty, init_app) =
     Inr ([''AMD'' \<mapsto>
            [''error'' \<mapsto> JBool True, ''message'' \<mapsto> JStr ''No data available'',
             ''signal'' \<mapsto> JBool False]], init_app)"
  using no_data_recorded [of absent_env 0 "''AMD''" Map.empty init_app]
    no_data_recorded [of short_env 0 "''AMD''" Map.empty init_app]
  by (simp add: normalise_AMD absent_env_def absent_fetch_def short_env_def short_fetch_def)

text \<open>
  C4, as stated, fails on the text of the message: the recorded message is
  \<open>No data available\<close>, with a capital letter, not \<open>no data available\<close>.
\<close>

theorem no_data_message_counterexample:
  "fetch_yahoo_data absent_env 0 ''AMD'' = None \<and>
   scan_ticker absent_env 0 ''AMD'' (Map.empty, init_app) =
     Inr ([''AMD'' \<mapsto> no_data_details], init_app) \<and>
   no_data_details ''message'' = Some (JStr ''No data available'') \<and>
   no_data_details ''message'' \<noteq> Some (JStr ''no data available'')"
  by (simp add: scan_ticker_eq normalise_AMD absent_ticker_result alert_of_no_data)
     (simp add: no_data_details_def absent_env_def absent_fetch_def)

section \<open>Failures do not stop the scan\<close>

text \<open>
  C5. Whatever the fetches return, the scan completes and the snapshot has an
  entry for every configured ticker; the entry of a ticker (the last one, if a
  ticker is configured twice) is the result of that ticker's own fetch and
  computation. When the fetch returns \<open>None\<close>, the entry has \<open>error = True\<close>
  and the message \<open>No data available\<close>. When the computation inside
  \<open>calculate_squeeze\<close> raises, the entry has \<open>error = True\<close> and the text
  of the exception as \<open>message\<close>; for a frame whose last volume is infinite
  that text is the one of the \<open>OverflowError\<close> of \<open>int\<close>.
\<close>

theorem scan_isolates_failures:
  "\<exists>a'. scan_markets e tickers a = Inr a' \<and>
      dom (squeeze_data a') = (\<lambda>t. upper (strip t)) ` set tickers \<and>
      (\<forall>i < length tickers.
         upper (strip (tickers ! i)) \<notin> (\<lambda>t. upper (strip t)) ` set (drop (Suc i) tickers) \<longrightarrow>
         (\<exists>det.
            squeeze_data a' (upper (strip (tickers ! i))) = Some det \<and>
            det = snd (ticker_result e i (upper (strip (tickers ! i)))) \<and>
            (fetch_yahoo_data e i (upper (strip (tickers ! i))) = None \<longrightarrow>
               det ''error'' = Some (JBool True) \<and>
               det ''message'' = Some (JStr ''No data available'')) \<and>
            (\<forall>d msg. fetch_yahoo_data e i (upper (strip (tickers ! i))) = Some d \<and>
                 \<not> length d < 50 \<and> squeeze_try d 20 2 1.5 1.5 = Inl msg \<longrightarrow>
               det ''error'' = Some (JBool True) \<and> det ''message'' = Some (JStr msg)) \<and>
            (\<forall>d. fetch_yahoo_data e i (upper (strip (tickers ! i))) = Some d \<and>
                 \<not> length d < 50 \<and> (volume (last d) = PosInf \<or> volume (last d) = NegInf) \<longrightarrow>
               det ''error'' = Some (JBool True) \<and>
               det ''message'' = Some (JStr ''cannot convert float infinity to integer''))))"
proof -
  let ?a' = "publish (map_of (rev (scan_results e 0 tickers)))
      (a\<lparr>events := events a @ scan_alerts e 0 tickers\<rparr>)"
  have sq: "squeeze_data ?a' = map_of (rev (scan_results e 0 tickers))" by (simp add: publish_def)
  have absent: "snd (ticker_result e i t) ''error'' = Some (JBool True) \<and>
      snd (ticker_result e i t) ''message'' = Some (JStr ''No data available'')"
    if "fetch_yahoo_data e i t = None" for i t
    using ticker_result_absent [OF that] by (simp add: no_data_details_def)
  have fault: "snd (ticker_result e i t) ''error'' = Some (JBool True) \<and>
      snd (ticker_result e i t) ''message'' = Some (JStr msg)"
    if "fetch_yahoo_data e i t = Some d" "\<not> length d < 50" "squeeze_try d 20 2 1.5 1.5 = Inl msg"
    for i t d msg
    using ticker_result_fault [OF that] by (simp add: error_details_def)
  have overflow: "snd (ticker_result e i t) ''error'' = Some (JBool True) \<and>
      snd (ticker_result e i t) ''message'' = Some (JStr ''cannot convert float infinity to integer'')"
    if "fetch_yahoo_data e i t = Some d" "\<not> length d < 50"
      "volume (last d) = PosInf \<or> volume (last d) = NegInf" for i t d
  proof -
    have "(20::int) + 26 \<le> int (length d)" using that(2) by simp
    then have "squeeze_try d 20 2 1.5 1.5 = Inl overflow_error"
      using that(3) by (intro squeeze_try_overflow) simp_all
    from fault [OF that(1,2) this] show ?thesis by (simp add: overflow_error_def)
  qed
  show ?thesis
  proof (intro exI conjI allI impI)
    show "scan_markets e tickers a = Inr ?a'" by (rule scan_markets_eq)
    show "dom (squeeze_data ?a') = (\<lambda>t. upper (strip t)) ` set tickers"
      unfolding sq by (rule dom_scan_results)
    fix i
    assume i: "i < length tickers"
      "upper (strip (tickers ! i)) \<notin> (\<lambda>t. upper (strip t)) ` set (drop (Suc i) tickers)"
    let ?key = "upper (strip (tickers ! i))"
    show "squeeze_data ?a' ?key = Some (snd (ticker_result e i ?key))"
      unfolding sq using scan_results_last_wins [OF i, of e 0] by simp
    show "snd (ticker_result e i ?key) = snd (ticker_result e i ?key)" by (rule refl)
    show "snd (ticker_result e i ?key) ''error'' = Some (JBool True)"
      if "fetch_yahoo_data e i ?key = None"
      using absent [OF that] by simp
    show "snd (ticker_result e i ?key) ''message'' = Some (JStr ''No data available'')"
      if "fetch_yahoo_data e i ?key = None"
      using absent [OF that] by simp
    show "snd (ticker_result e i ?key) ''error'' = Some (JBool True)"
      if "fetch_yahoo_data e i ?key = Some d \<and> \<not> length d < 50 \<and>
          squeeze_try d 20 2 1.5 1.5 = Inl msg" for d msg
      using fault [of i ?key d msg] that by simp
    show "snd (ticker_result e i ?key) ''message'' = Some (JStr msg)"
      if "fetch_yahoo_data e i ?key = Some d \<and> \<not> length d < 50 \<and>
          squeeze_try d 20 2 1.5 1.5 = Inl msg" for d msg
      using fault [of i ?key d msg] that by simp
    show "snd (ticker_result e i ?key) ''error'' = Some (JBool True)"
      if "fetch_yahoo_data e i ?key = Some d \<and> \<not> length d < 50 \<and>
          (volume (last d) = PosInf \<or> volume (last d) = NegInf)" for d
      using overflow [of i ?key d] that by simp
    show "snd (ticker_result e i ?key) ''message'' =
        Some (JStr ''cannot convert float infinity to integer'')"
      if "fetch_yahoo_data e i ?key = Some d \<and> \<not> length d < 50 \<and>
          (volume (last d) = PosInf \<or> volume (last d) = NegInf)" for d
      using overflow [of i ?key d] that by simp
  qed
qed

theorem scan_isolates_failures_witness:
  "scan_markets faulty_env [''AMD'', ''NVDA'', ''GME''] init_app =
     Inr \<lparr>squeeze_data =
            [''AMD'' \<mapsto> no_data_details, ''NVDA'' \<mapsto> overflow_details, ''GME'' \<mapsto> rally_details],
          events =
            [Alert ''GME'' (JFloat 106),
             Publish [''AMD'' \<mapsto> no_data_details, ''NVDA'' \<mapsto> overflow_details,
                      ''GME'' \<mapsto> rally_details]]\<rparr> \<and>
   (1::nat) < length [''AMD'', ''NVDA'', ''GME''] \<and>
   upper (strip ([''AMD'', ''NVDA'', ''GME''] ! 1)) \<notin>
     (\<lambda>t. upper (strip t)) ` set (drop (Suc 1) [''AMD'', ''NVDA'', ''GME'']) \<and>
   fetch_yahoo_data faulty_env 1 ''NVDA'' = Some overflow_frame \<and>
   \<not> length overflow_frame < 50 \<and>
   volume (last overflow_frame) = PosInf \<and>
   squeeze_try overflow_frame 20 2 1.5 1.5 = Inl ''cannot convert float infinity to integer'' \<and>
   overflow_details ''error'' = Some (JBool True) \<and>
   overflow_details ''message'' = Some (JStr ''cannot convert float infinity to integer'') \<and>
   fetch_yahoo_data faulty_env 0 ''AMD'' = None \<and>
   no_data_details ''error'' = Some (JBool True) \<and>
   no_data_details ''message'' = Some (JStr ''No data available'')"
proof -
  have scan: "scan_markets faulty_env [''AMD'', ''NVDA'', ''GME''] init_app =
     Inr \<lparr>squeeze_data =
            [''AMD'' \<mapsto> no_data_details, ''NVDA'' \<mapsto> overflow_details, ''GME'' \<mapsto> rally_details],
          events =
            [Alert ''GME'' (JFloat 106),
             Publish [''AMD'' \<mapsto> no_data_details, ''NVDA'' \<mapsto> overflow_details,
                      ''GME'' \<mapsto> rally_details]]\<rparr>"
    by (simp add: scan_markets_eq scan_alerts_def normalise_AMD normalise_NVDA normalise_GME
        faulty_ticker_result_AMD faulty_ticker_result_NVDA faulty_ticker_result_GME
        alert_of_no_data alert_of_overflow alert_of_rally publish_def init_app_def)
  have keys: "(1::nat) < length [''AMD'', ''NVDA'', ''GME''] \<and>
      upper (strip ([''AMD'', ''NVDA'', ''GME''] ! 1)) \<notin>
        (\<lambda>t. upper (strip t)) ` set (drop (Suc 1) [''AMD'', ''NVDA'', ''GME''])"
    by (simp add: normalise_NVDA normalise_GME)
  have fetches: "fetch_yahoo_data faulty_env 1 ''NVDA'' = Some overflow_frame \<and>
      fetch_yahoo_data faulty_env 0 ''AMD'' = None"
    by (simp add: faulty_env_def faulty_fetch_def)
  have frame: "\<not> length overflow_frame < 50 \<and> volume (last overflow_frame) = PosInf"
    by (simp add: overflow_length overflow_last)
  have raised: "squeeze_try overflow_frame 20 2 1.5 1.5 =
      Inl ''cannot convert float infinity to integer''"
    using squeeze_try_overflow [of 20 overflow_frame 2 "1.5" "1.5"]
    by (simp add: overflow_length overflow_last overflow_error_def)
  have entries: "overflow_details ''error'' = Some (JBool True) \<and>
      overflow_details ''message'' = Some (JStr ''cannot convert float infinity to integer'') \<and>
      no_data_details ''error'' = Some (JBool True) \<and>
      no_data_details ''message'' = Some (JStr ''No data available'')"
    by (simp add: overflow_details_def error_details_def overflow_error_def no_data_details_def)
  from scan_isolates_failures [of faulty_env "[''AMD'', ''NVDA'', ''GME'']" init_app]
  obtain a' where "scan_markets faulty_env [''AMD'', ''NVDA'', ''GME''] init_app = Inr a'"
    by blast
  with scan keys fetches frame raised entries show ?thesis by blast
qed

section \<open>Alerts and publication\<close>

text \<open>
  C7, as amended. A scan calls the alert, with the ticker and its price, for
  exactly the tickers whose recorded entry has \<open>error = False\<close> and
  \<open>signal = True\<close>, in configuration order and while the loop runs; the
  snapshot is assigned to \<open>squeeze_data\<close> once, after the loop, and so after
  every alert of the scan.
\<close>

theorem alerts_before_publish:
  "scan_markets e tickers a =
     Inr \<lparr>squeeze_data = map_of (rev (scan_results e 0 tickers)),
          events = events a @ scan_alerts e 0 tickers @
                   [Publish (map_of (rev (scan_results e 0 tickers)))]\<rparr>"
  by (simp add: scan_markets_eq publish_def)

text \<open>
  C7, as stated, fails on the order: in a scan of one ticker whose signal is
  true, the alert is sent first and the snapshot is published after it.
\<close>

theorem alert_precedes_publish_counterexample:
  "scan_markets mixed_env [''GME''] init_app =
     Inr \<lparr>squeeze_data = [''GME'' \<mapsto> rally_details],
          events = [Alert ''GME'' (JFloat 106), Publish [''GME'' \<mapsto> rally_details]]\<rparr>"
  by (simp add: scan_markets_eq scan_alerts_def normalise_GME mixed_ticker_result_GME
      alert_of_rally publish_def init_app_def)

section \<open>The guard of the scan and the guard of the indicator\<close>

text \<open>
  C10. A frame that passes the guard of \<open>scan_markets\<close> (not \<open>None\<close>, at least
  50 rows) does not satisfy \<open>len(df) < L + 26\<close> for the default \<open>L = 20\<close>, and
  \<open>calculate_squeeze\<close> does not return its empty dictionary on it; no entry
  recorded by a scan is that empty dictionary with a timestamp.
\<close>

theorem insufficient_data_unreachable:
  "(fetch_yahoo_data e k t = Some d \<and> \<not> length d < 50 \<longrightarrow>
      \<not> int (length d) < 20 + 26 \<and> calculate_squeeze d 20 2 1.5 1.5 \<noteq> (False, Map.empty)) \<and>
   snd (ticker_result e k t) \<noteq> Map.empty(''timestamp'' \<mapsto> JStr (now_iso e k))"
proof (intro conjI impI)
  assume h: "fetch_yahoo_data e k t = Some d \<and> \<not> length d < 50"
  then show "\<not> int (length d) < 20 + 26" by simp
  have "snd (calculate_squeeze d 20 2 1.5 1.5) ''error'' \<noteq> None"
    using h by (simp add: calculate_squeeze_default signal_details_def error_details_def
        split: sum.splits)
  then show "calculate_squeeze d 20 2 1.5 1.5 \<noteq> (False, Map.empty)" by auto
next
  show "snd (ticker_result e k t) \<noteq> Map.empty(''timestamp'' \<mapsto> JStr (now_iso e k))"
  proof
    assume "snd (ticker_result e k t) = Map.empty(''timestamp'' \<mapsto> JStr (now_iso e k))"
    then have "snd (ticker_result e k t) ''error'' = None" by simp
    then show False using entry_has_error_key [of e k t] by simp
  qed
qed

theorem insufficient_data_unreachable_witness:
  "fetch_yahoo_data mixed_env 0 ''GME'' = Some rally_frame \<and> \<not> length rally_frame < 50 \<and>
   \<not> int (length rally_frame) < 20 + 26 \<and>
   calculate_squeeze rally_frame 20 2 1.5 1.5 \<noteq> (False, Map.empty)"
  using insufficient_data_unreachable [of mixed_env 0 "''GME''" rally_frame]
  by (simp add: mixed_env_def mixed_fetch_def rally_length)

end
